theory Spec2Isabelle
  imports Complex_Main
begin

section \<open>Python values used by the simulation\<close>

text \<open>
  Exceptions that the modelled methods can raise. A method that can raise returns
  \<open>py_error + 'a\<close>, with \<open>Inl\<close> for the exception.
\<close>

datatype py_error = KeyError | IndexError | ValueError | RuntimeError | UnboundLocalError

text \<open>
  A Python \<open>dict\<close> keeps its keys in insertion order, and the simulation iterates over
  dictionaries, so a dictionary is an association list with distinct keys. Assigning to a
  key that is present keeps its place; assigning to a new key appends it.
\<close>

type_synonym ('k, 'v) dict = "('k \<times> 'v) list"

definition dict_get :: "('k, 'v) dict \<Rightarrow> 'k \<Rightarrow> py_error + 'v" where
  "dict_get d k = (case map_of d k of None \<Rightarrow> Inl KeyError | Some v \<Rightarrow> Inr v)"

fun dict_set :: "('k, 'v) dict \<Rightarrow> 'k \<Rightarrow> 'v \<Rightarrow> ('k, 'v) dict" where
  "dict_set [] k v = [(k, v)]"
| "dict_set ((k', v') # d) k v =
     (if k' = k then (k, v) # d else (k', v') # dict_set d k v)"

definition dict_keys :: "('k, 'v) dict \<Rightarrow> 'k list" where
  "dict_keys d = map fst d"

definition dict_values :: "('k, 'v) dict \<Rightarrow> 'v list" where
  "dict_values d = map snd d"

definition dict_pop :: "('k, 'v) dict \<Rightarrow> 'k \<Rightarrow> py_error + ('v \<times> ('k, 'v) dict)" where
  "dict_pop d k =
     (case map_of d k of
        None \<Rightarrow> Inl KeyError
      | Some v \<Rightarrow> Inr (v, filter (\<lambda>kv. fst kv \<noteq> k) d))"

text \<open>
  All randomness comes from the one stream of the \<open>random\<close> module. The stream is a
  function from the number of the draw to a raw natural number; every function that
  draws takes the number of draws made so far and returns the new count.
  \<open>random.randint(lo, hi)\<close> is a value of \<open>lo..hi\<close>, \<open>random.choice(xs)\<close> an element
  of \<open>xs\<close>, and \<open>random.choice([])\<close> raises \<open>IndexError\<close>.
\<close>

type_synonym rng = "nat \<Rightarrow> nat"

definition randint :: "rng \<Rightarrow> nat \<Rightarrow> int \<Rightarrow> int \<Rightarrow> int" where
  "randint g k lo hi = lo + int (g k) mod (hi - lo + 1)"

definition choice :: "rng \<Rightarrow> nat \<Rightarrow> 'a list \<Rightarrow> py_error + 'a" where
  "choice g k xs = (if xs = [] then Inl IndexError else Inr (xs ! (g k mod length xs)))"

section \<open>Land patches (landpatch\_base\_class, treepatch\_sub\_class, rockpatch\_sub\_class)\<close>

text \<open>
  Patch objects live in a heap and are referred to by address: a neighbour dictionary
  maps a patch id to the address of the neighbour object, as the Python dictionary holds
  a reference to it. The neighbour dictionary itself is kept inside the patch: the
  dictionary objects are written only by \<open>add_landpatch_to_neighbour\<close> while the graph
  is built, when every patch owns a fresh one, so that the sharing of the dictionary
  between a patch and its replacement cannot be observed.

  Probabilities and coordinates are Python floats; they are only stored and compared
  with integers, and are modelled by the rational number they denote.
\<close>

type_synonym ref = nat

record landpatch =
  patch_id :: int
  neighbors :: "(int, ref) dict"
  position :: "rat \<times> rat"
  color :: "int option"
  has_firefighter :: bool

record treepatch = landpatch +
  prob_autcombustion :: rat
  lit_state :: bool
  tree_stats :: int

record rockpatch = landpatch +
  prob_treepatch :: rat

datatype obj = Tree treepatch | Rock rockpatch

text \<open>The attributes \<open>__tree_stats_max\<close> and \<open>__tree_stats_min\<close> are set by the
  constructor to 256 and 0 and never assigned again.\<close>

definition tree_stats_max :: int where
  "tree_stats_max = 256"

definition tree_stats_min :: int where
  "tree_stats_min = 0"

text \<open>\<open>Treepatch.__init__(patch_id, neighbors, lit_state, prob_autcombustion)\<close>: the
  base constructor runs with its defaults (position \<open>(0.0, 0.0)\<close>, colour 0, no
  firefighter), then the colour is set to 256.\<close>

definition Treepatch :: "int \<Rightarrow> (int, ref) dict \<Rightarrow> bool \<Rightarrow> rat \<Rightarrow> treepatch" where
  "Treepatch pid nbrs lit p =
     \<lparr>patch_id = pid, neighbors = nbrs, position = (0, 0), color = Some 256,
      has_firefighter = False,
      prob_autcombustion = p, lit_state = lit, tree_stats = tree_stats_max\<rparr>"

text \<open>\<open>Rockpatch.__init__(patch_id, neighbors, prob_treepatch)\<close>: the colour is set to
  \<open>None\<close>.\<close>

definition Rockpatch :: "int \<Rightarrow> (int, ref) dict \<Rightarrow> rat \<Rightarrow> rockpatch" where
  "Rockpatch pid nbrs p =
     \<lparr>patch_id = pid, neighbors = nbrs, position = (0, 0), color = None,
      has_firefighter = False, prob_treepatch = p\<rparr>"

text \<open>The default value 0.1 of both probability arguments.\<close>

definition default_prob :: rat where
  "default_prob = 1 / 10"

definition set_lit_state :: "bool \<Rightarrow> treepatch \<Rightarrow> treepatch" where
  "set_lit_state state t = t\<lparr>lit_state := state\<rparr>"

definition set_tree_stats :: "int \<Rightarrow> treepatch \<Rightarrow> treepatch" where
  "set_tree_stats stats t =
     (let t1 = t\<lparr>tree_stats := stats\<rparr>
      in if tree_stats t1 \<ge> tree_stats_max
         then set_lit_state False (t1\<lparr>tree_stats := tree_stats_max\<rparr>)
         else t1)"

text \<open>\<open>Treepatch.update\<close>, given the value \<open>roll\<close> of its \<open>random.randint(1, 100)\<close>.
  It returns the updated tree and whether the tree should mutate.\<close>

definition treepatch_update :: "int \<Rightarrow> treepatch \<Rightarrow> treepatch \<times> bool" where
  "treepatch_update roll t =
     (let t1 = (if of_int roll \<le> prob_autcombustion t then t\<lparr>lit_state := True\<rparr> else t)
      in if \<not> lit_state t1 then
           (let t2 = (if tree_stats t1 + 10 \<le> tree_stats_max
                      then t1\<lparr>tree_stats := tree_stats t1 + 10\<rparr>
                      else t1\<lparr>tree_stats := tree_stats_max\<rparr>)
            in (t2\<lparr>color := Some (tree_stats t2)\<rparr>, False))
         else if tree_stats t1 - 20 \<ge> tree_stats_min then
           (let t2 = t1\<lparr>tree_stats := tree_stats t1 - 20\<rparr>
            in (t2\<lparr>color := Some (- 256 - (- 1 * tree_stats t2))\<rparr>, False))
         else (t1, True))"

text \<open>\<open>Rockpatch.update\<close>, given the value of its roll: the rock is not changed.\<close>

definition rockpatch_update :: "int \<Rightarrow> rockpatch \<Rightarrow> bool" where
  "rockpatch_update roll r = (if of_int roll \<le> prob_treepatch r then True else False)"

text \<open>\<open>Treepatch.mutate\<close> and \<open>Rockpatch.mutate\<close> build the replacement object from the
  id and the neighbour dictionary only; every other argument takes its default.\<close>

definition treepatch_mutate :: "treepatch \<Rightarrow> rockpatch" where
  "treepatch_mutate t = Rockpatch (patch_id t) (neighbors t) default_prob"

definition rockpatch_mutate :: "rockpatch \<Rightarrow> treepatch" where
  "rockpatch_mutate r =
     set_tree_stats 1 (Treepatch (patch_id r) (neighbors r) False default_prob)"

text \<open>The methods of the base class, on an object of either subclass.\<close>

definition base :: "obj \<Rightarrow> landpatch" where
  "base x = (case x of Tree t \<Rightarrow> landpatch.truncate t | Rock r \<Rightarrow> landpatch.truncate r)"

definition get_patch_id :: "obj \<Rightarrow> int" where
  "get_patch_id x = patch_id (base x)"

definition get_neighbors :: "obj \<Rightarrow> (int, ref) dict" where
  "get_neighbors x = neighbors (base x)"

definition get_neighbors_id :: "obj \<Rightarrow> int list" where
  "get_neighbors_id x = dict_keys (get_neighbors x)"

definition set_firefighter :: "bool \<Rightarrow> obj \<Rightarrow> obj" where
  "set_firefighter b x =
     (case x of Tree t \<Rightarrow> Tree (t\<lparr>has_firefighter := b\<rparr>)
              | Rock r \<Rightarrow> Rock (r\<lparr>has_firefighter := b\<rparr>))"

definition set_position :: "rat \<times> rat \<Rightarrow> obj \<Rightarrow> obj" where
  "set_position pos x =
     (case x of Tree t \<Rightarrow> Tree (t\<lparr>position := pos\<rparr>)
              | Rock r \<Rightarrow> Rock (r\<lparr>position := pos\<rparr>))"

definition set_neighbors :: "(int, ref) dict \<Rightarrow> obj \<Rightarrow> obj" where
  "set_neighbors d x =
     (case x of Tree t \<Rightarrow> Tree (t\<lparr>neighbors := d\<rparr>)
              | Rock r \<Rightarrow> Rock (r\<lparr>neighbors := d\<rparr>))"

text \<open>The abstract method \<open>mutate\<close>, dispatched on the class of the object.\<close>

definition mutate :: "obj \<Rightarrow> obj" where
  "mutate x = (case x of Tree t \<Rightarrow> Rock (treepatch_mutate t)
                       | Rock r \<Rightarrow> Tree (rockpatch_mutate r))"

definition is_tree :: "obj \<Rightarrow> bool" where
  "is_tree x = (case x of Tree t \<Rightarrow> True | Rock r \<Rightarrow> False)"

section \<open>Firefighters (firefighter\_class)\<close>

record firefighter =
  firefighter_id :: int
  avg_skill :: int

definition fight_fire :: "firefighter \<Rightarrow> treepatch \<Rightarrow> treepatch" where
  "fight_fire f t =
     (if \<not> lit_state t then t
      else if tree_stats t + avg_skill f \<le> 256
           then set_tree_stats (tree_stats t + avg_skill f) t
           else set_tree_stats 256 t)"

text \<open>
  \<open>Firefighter.move(landpatch, firefighter_positions)\<close>. The \<open>for\<close> loop looks for the
  first neighbour that is a lit tree and not occupied; its loop variable is named
  \<open>landpatch\<close> too, so that after the loop \<open>landpatch\<close> is the last neighbour visited
  (the argument itself when there is no neighbour), and the random destination is drawn
  from the neighbour ids of that patch. The \<open>while\<close> loop draws again as long as the
  destination is occupied; it need not end, and \<open>None\<close> is a run that never returns.
\<close>

fun first_lit_unoccupied :: "obj list \<Rightarrow> int list \<Rightarrow> ref list \<Rightarrow> int option" where
  "first_lit_unoccupied h firefighter_positions [] = None"
| "first_lit_unoccupied h firefighter_positions (landpatch # rest) =
     (case h ! landpatch of
        Tree t \<Rightarrow>
          if lit_state t \<and> \<not> patch_id t \<in> set firefighter_positions
          then Some (patch_id t)
          else first_lit_unoccupied h firefighter_positions rest
      | Rock r \<Rightarrow> first_lit_unoccupied h firefighter_positions rest)"

partial_function (option) move_retry ::
  "rng \<Rightarrow> int list \<Rightarrow> int list \<Rightarrow> int \<Rightarrow> nat \<Rightarrow> (py_error + int \<times> nat) option" where
  "move_retry g ids firefighter_positions destination k =
     (if destination \<in> set firefighter_positions then
        (case choice g k ids of
           Inl e \<Rightarrow> Some (Inl e)
         | Inr d \<Rightarrow> move_retry g ids firefighter_positions d (Suc k))
      else Some (Inr (destination, k)))"

definition move ::
  "rng \<Rightarrow> obj list \<Rightarrow> ref \<Rightarrow> int list \<Rightarrow> nat \<Rightarrow> (py_error + int \<times> nat) option" where
  "move g h landpatch firefighter_positions k =
     (let neighbours = get_neighbors (h ! landpatch)
      in case first_lit_unoccupied h firefighter_positions (dict_values neighbours) of
           Some i \<Rightarrow> Some (Inr (i, k))
         | None \<Rightarrow>
             (let landpatch' = (if neighbours = [] then landpatch
                                else last (dict_values neighbours));
                  ids = get_neighbors_id (h ! landpatch')
              in case choice g k ids of
                   Inl e \<Rightarrow> Some (Inl e)
                 | Inr destination \<Rightarrow>
                     move_retry g ids firefighter_positions destination (Suc k)))"

section \<open>The land and its graph builder (land\_class, graph\_builder\_class)\<close>

text \<open>The entries of the configuration dictionary that the simulation reads:
  \<open>configs['landscape']\<close>, \<open>configs['probabilities']\<close> (ignition, transmission, respawn)
  and \<open>configs['firefighters']\<close> (number, skill).\<close>

record config =
  landscape :: rat
  probabilities :: "rat \<times> rat \<times> rat"
  firefighters_config :: "int \<times> int"

text \<open>
  The state of a \<open>Land\<close>: the heap of patch objects, the patch table (the one dictionary
  that the land and its graph builder share), the edge list, the positions, the
  firefighters by position, and the two counters of the graph builder.
\<close>

record land =
  heap :: "obj list"
  land_patches :: "(int, ref) dict"
  edgelist :: "(int \<times> int) list"
  positions :: "(int, rat \<times> rat) dict"
  firefighters :: "(int, firefighter) dict"
  number_of_rocks :: int
  number_of_trees :: int

subsection \<open>GraphBuilder\<close>

definition create_landpatch :: "config \<Rightarrow> int \<Rightarrow> rat \<times> rat \<Rightarrow> land \<Rightarrow> land" where
  "create_landpatch cfg pid pos L =
     (let target_percentage_of_trees = landscape cfg / 100;
          current_tree_percentage =
            (if length (land_patches L) > 0
             then of_int (number_of_trees L) / of_nat (length (land_patches L))
             else 0);
          (land_patch, L1) =
            (if current_tree_percentage < target_percentage_of_trees
             then (Tree (Treepatch pid [] False (fst (probabilities cfg))),
                   L\<lparr>number_of_trees := number_of_trees L + 1\<rparr>)
             else (Rock (Rockpatch pid [] (snd (snd (probabilities cfg)))),
                   L\<lparr>number_of_rocks := number_of_rocks L + 1\<rparr>));
          land_patch' = set_position pos land_patch
      in L1\<lparr>heap := heap L1 @ [land_patch'],
            land_patches := dict_set (land_patches L1) (get_patch_id land_patch')
                              (length (heap L1))\<rparr>)"

text \<open>The first loop of \<open>create_landpatches\<close>, over the keys of \<open>positions\<close> in their
  order, each with its position.\<close>

fun create_patches :: "config \<Rightarrow> (int, rat \<times> rat) dict \<Rightarrow> land \<Rightarrow> land" where
  "create_patches cfg [] L = L"
| "create_patches cfg ((pid, pos) # ps) L =
     create_patches cfg ps (create_landpatch cfg pid pos L)"

definition add_landpatch_to_neighbour :: "obj list \<Rightarrow> ref \<Rightarrow> ref \<Rightarrow> obj list" where
  "add_landpatch_to_neighbour h self new_neighbour =
     h[self := set_neighbors
                 (dict_set (get_neighbors (h ! self)) (get_patch_id (h ! new_neighbour))
                    new_neighbour)
                 (h ! self)]"

text \<open>The second loop of \<open>create_landpatches\<close>, over the edges.\<close>

fun add_edges :: "(int \<times> int) list \<Rightarrow> land \<Rightarrow> py_error + land" where
  "add_edges [] L = Inr L"
| "add_edges ((a, b) # es) L =
     (case dict_get (land_patches L) a of
        Inl e \<Rightarrow> Inl e
      | Inr first_patch \<Rightarrow>
          (case dict_get (land_patches L) b of
             Inl e \<Rightarrow> Inl e
           | Inr second_patch \<Rightarrow>
               (let h1 = add_landpatch_to_neighbour (heap L) first_patch second_patch;
                    h2 = add_landpatch_to_neighbour h1 second_patch first_patch
                in add_edges es (L\<lparr>heap := h2\<rparr>))))"

definition create_landpatches ::
  "config \<Rightarrow> (int \<times> int) list \<Rightarrow> (int, rat \<times> rat) dict \<Rightarrow> land \<Rightarrow> py_error + land" where
  "create_landpatches cfg edges pos L = add_edges edges (create_patches cfg pos L)"

subsection \<open>Land\<close>

definition get_firefighters :: "land \<Rightarrow> int list" where
  "get_firefighters L = dict_keys (firefighters L)"

function spawn_loop ::
  "config \<Rightarrow> rng \<Rightarrow> int \<Rightarrow> land \<Rightarrow> nat \<Rightarrow> py_error + land \<times> nat" where
  "spawn_loop cfg g firefighters_spawned L k =
     (if firefighters_spawned < fst (firefighters_config cfg) then
        (case choice g k (dict_keys (positions L)) of
           Inl e \<Rightarrow> Inl e
         | Inr spawn_position \<Rightarrow>
             (case dict_get (land_patches L) spawn_position of
                Inl e \<Rightarrow> Inl e
              | Inr r \<Rightarrow>
                  spawn_loop cfg g (firefighters_spawned + 1)
                    (L\<lparr>firefighters :=
                         dict_set (firefighters L) spawn_position
                           \<lparr>firefighter_id = firefighters_spawned,
                            avg_skill = snd (firefighters_config cfg)\<rparr>,
                       heap := (heap L)[r := set_firefighter True (heap L ! r)]\<rparr>)
                    (Suc k)))
      else Inr (L, k))"
  by pat_completeness auto
termination
  by (relation "measure (\<lambda>(cfg, g, n, L, k). nat (fst (firefighters_config cfg) - n))") auto

definition spawn_firefighters :: "config \<Rightarrow> rng \<Rightarrow> land \<Rightarrow> nat \<Rightarrow> py_error + land \<times> nat" where
  "spawn_firefighters cfg g L k = spawn_loop cfg g 0 L k"

definition mutate_landpatch :: "ref \<Rightarrow> land \<Rightarrow> land" where
  "mutate_landpatch landtpatch L =
     (let mutated_landpatch = mutate (heap L ! landtpatch)
      in L\<lparr>heap := heap L @ [mutated_landpatch],
           land_patches := dict_set (land_patches L) (get_patch_id mutated_landpatch)
                             (length (heap L))\<rparr>)"

text \<open>\<open>update_fire_transmition\<close>: the loop over the neighbour objects of a patch. The
  roll is drawn only for a neighbour that is a lit tree (\<open>and\<close> evaluates its second
  operand only then), it is compared with \<open>configs['probabilities'][0]\<close>, and on success
  the lit state of that neighbour is set.\<close>

fun transmit :: "config \<Rightarrow> rng \<Rightarrow> ref list \<Rightarrow> obj list \<Rightarrow> nat \<Rightarrow> obj list \<times> nat" where
  "transmit cfg g [] h k = (h, k)"
| "transmit cfg g (neighbor # rest) h k =
     (case h ! neighbor of
        Tree treepatch \<Rightarrow>
          if lit_state treepatch then
            (if of_int (randint g k 1 100) < fst (probabilities cfg)
             then transmit cfg g rest
                    (h[neighbor := Tree (set_lit_state True treepatch)]) (Suc k)
             else transmit cfg g rest h (Suc k))
          else transmit cfg g rest h k
      | Rock r \<Rightarrow> transmit cfg g rest h k)"

definition update_fire_transmition ::
  "config \<Rightarrow> rng \<Rightarrow> ref \<Rightarrow> obj list \<Rightarrow> nat \<Rightarrow> obj list \<times> nat" where
  "update_fire_transmition cfg g land_patch h k =
     transmit cfg g (dict_values (get_neighbors (h ! land_patch))) h k"

text \<open>
  \<open>Land.update\<close>, first loop: every firefighter on a lit tree fights the fire, every
  other one is put into \<open>firefighter_to_move\<close>. The loop also leaves the local variable
  \<open>landpatch\<close> bound to the patch of the last firefighter visited.
\<close>

fun decide_firefighters ::
  "int list \<Rightarrow> land \<Rightarrow> (int, firefighter) dict \<Rightarrow> ref option
     \<Rightarrow> py_error + land \<times> (int, firefighter) dict \<times> ref option" where
  "decide_firefighters [] L firefighter_to_move lp = Inr (L, firefighter_to_move, lp)"
| "decide_firefighters (place # ps) L firefighter_to_move lp =
     (case dict_get (firefighters L) place of
        Inl e \<Rightarrow> Inl e
      | Inr firefighter \<Rightarrow>
          (case dict_get (land_patches L) place of
             Inl e \<Rightarrow> Inl e
           | Inr landpatch \<Rightarrow>
               (case heap L ! landpatch of
                  Tree treepatch \<Rightarrow>
                    if lit_state treepatch
                    then decide_firefighters ps
                           (L\<lparr>heap := (heap L)[landpatch :=
                                          Tree (fight_fire firefighter treepatch)]\<rparr>)
                           firefighter_to_move (Some landpatch)
                    else decide_firefighters ps L
                           (dict_set firefighter_to_move place firefighter)
                           (Some landpatch)
                | Rock r \<Rightarrow>
                    decide_firefighters ps L
                      (dict_set firefighter_to_move place firefighter)
                      (Some landpatch))))"

text \<open>
  Second loop: every firefighter to move leaves its place and takes the destination
  that \<open>move\<close> returns. \<open>move\<close> is called with the variable \<open>landpatch\<close> that the first
  loop left behind, and with the positions of the firefighters at that moment.
\<close>

fun relocate_firefighters ::
  "rng \<Rightarrow> int list \<Rightarrow> ref option \<Rightarrow> land \<Rightarrow> nat \<Rightarrow> (py_error + land \<times> nat) option" where
  "relocate_firefighters g [] lp L k = Some (Inr (L, k))"
| "relocate_firefighters g (place # ps) lp L k =
     (case dict_pop (firefighters L) place of
        Inl e \<Rightarrow> Some (Inl e)
      | Inr (firefighter, fs) \<Rightarrow>
          (case dict_get (land_patches L) place of
             Inl e \<Rightarrow> Some (Inl e)
           | Inr r \<Rightarrow>
               (let L1 = L\<lparr>firefighters := fs,
                           heap := (heap L)[r := set_firefighter False (heap L ! r)]\<rparr>
                in case lp of
                     None \<Rightarrow> Some (Inl UnboundLocalError)
                   | Some landpatch \<Rightarrow>
                       (case move g (heap L1) landpatch (get_firefighters L1) k of
                          None \<Rightarrow> None
                        | Some (Inl e) \<Rightarrow> Some (Inl e)
                        | Some (Inr (destination, k')) \<Rightarrow>
                            (case dict_get (land_patches L1) destination of
                               Inl e \<Rightarrow> Some (Inl e)
                             | Inr rd \<Rightarrow>
                                 relocate_firefighters g ps lp
                                   (L1\<lparr>firefighters :=
                                         dict_set (firefighters L1) destination firefighter,
                                       heap := (heap L1)[rd :=
                                         set_firefighter True (heap L1 ! rd)]\<rparr>)
                                   k')))))"

text \<open>
  Third loop, over the values of the patch table while the table is being written: the
  loop reads the entry at each index of the table as it is then, and raises
  \<open>RuntimeError\<close> when the table has changed its size. Each patch draws one roll for its
  own \<open>update\<close>.
\<close>

fun update_patches ::
  "config \<Rightarrow> rng \<Rightarrow> nat list \<Rightarrow> nat \<Rightarrow> land \<Rightarrow> nat \<Rightarrow> py_error + land \<times> nat" where
  "update_patches cfg g [] n L k =
     (if length (land_patches L) \<noteq> n then Inl RuntimeError else Inr (L, k))"
| "update_patches cfg g (i # rest) n L k =
     (if length (land_patches L) \<noteq> n then Inl RuntimeError
      else
        (let landpatch = snd (land_patches L ! i);
             (h1, k1) = (case heap L ! landpatch of
                           Tree t \<Rightarrow> update_fire_transmition cfg g landpatch (heap L) k
                         | Rock r \<Rightarrow> (heap L, k))
         in case h1 ! landpatch of
              Tree t \<Rightarrow>
                (let (t', m) = treepatch_update (randint g k1 1 100) t;
                     L1 = L\<lparr>heap := h1[landpatch := Tree t']\<rparr>
                 in update_patches cfg g rest n
                      (if m then mutate_landpatch landpatch L1 else L1) (Suc k1))
            | Rock r \<Rightarrow>
                (let L1 = L\<lparr>heap := h1\<rparr>
                 in update_patches cfg g rest n
                      (if rockpatch_update (randint g k1 1 100) r
                       then mutate_landpatch landpatch L1 else L1)
                      (Suc k1))))"

definition land_update ::
  "config \<Rightarrow> rng \<Rightarrow> land \<Rightarrow> nat \<Rightarrow> (py_error + land \<times> nat) option" where
  "land_update cfg g L k =
     (case decide_firefighters (dict_keys (firefighters L)) L [] None of
        Inl e \<Rightarrow> Some (Inl e)
      | Inr (L1, firefighter_to_move, lp) \<Rightarrow>
          (case relocate_firefighters g (dict_keys firefighter_to_move) lp L1 k of
             None \<Rightarrow> None
           | Some (Inl e) \<Rightarrow> Some (Inl e)
           | Some (Inr (L2, k2)) \<Rightarrow>
               Some (update_patches cfg g [0..<length (land_patches L2)]
                       (length (land_patches L2)) L2 k2)))"

text \<open>
  \<open>Land.validate_graph\<close>: \<open>unchecked.pop()\<close> takes the last element; the neighbour ids of
  the patch are appended; every occurrence of the id is removed from \<open>unchecked\<close>.
\<close>

function validate_loop ::
  "obj list \<Rightarrow> (int, ref) dict \<Rightarrow> int list \<Rightarrow> int list \<Rightarrow> py_error + int list" where
  "validate_loop h table unchecked validated =
     (if length unchecked > 0 then
        (let edge = last unchecked;
             unchecked1 = butlast unchecked
         in if edge \<in> set validated then validate_loop h table unchecked1 validated
            else
              (case dict_get table edge of
                 Inl e \<Rightarrow> Inl e
               | Inr r \<Rightarrow>
                   validate_loop h table
                     (removeAll edge (unchecked1 @ get_neighbors_id (h ! r)))
                     (validated @ [edge])))
      else Inr validated)"
  by pat_completeness auto

termination
proof (relation "measures [\<lambda>(h, table, u, validated). card (set (dict_keys table) - set validated),
                           \<lambda>(h, table, u, validated). length u]", goal_cases)
  case 1
  show ?case by simp
next
  case (2 h table u validated edge u1)
  then show ?case by simp
next
  case (3 h table u validated edge u1 r)
  from 3 have "edge \<in> set (dict_keys table)"
    by (auto simp: dict_get_def dict_keys_def split: option.splits
             dest: map_of_SomeD intro: rev_image_eqI)
  with 3 have "edge \<in> set (dict_keys table) - set validated"
    by simp
  moreover have "set (dict_keys table) - set (validated @ [edge]) =
                 (set (dict_keys table) - set validated) - {edge}"
    by auto
  ultimately
  have "card (set (dict_keys table) - set (validated @ [edge])) <
        card (set (dict_keys table) - set validated)"
    using card_Diff1_less [of "set (dict_keys table) - set validated" edge]
    by (simp del: set_append)
  then show ?case by simp
qed

definition validate_graph ::
  "(int, rat \<times> rat) dict \<Rightarrow> obj list \<Rightarrow> (int, ref) dict \<Rightarrow> py_error + bool" where
  "validate_graph pos h table =
     (case validate_loop h table (dict_keys pos) [] of
        Inl e \<Rightarrow> Inl e
      | Inr validated \<Rightarrow> Inr (length validated = length (dict_keys pos)))"

definition empty_land :: land where
  "empty_land =
     \<lparr>heap = [], land_patches = [], edgelist = [], positions = [],
      firefighters = [], number_of_rocks = 0, number_of_trees = 0\<rparr>"

text \<open>
  \<open>Land.__init__\<close>, called with the configuration only and for the first time, so that
  the patch table and the firefighters start as the empty default dictionaries. The graph source (\<open>vis_modules.graph_helper\<close> or the graph
  reader) is outside the simulation: the edge list and the positions it returns are
  arguments, and so is the answer \<open>planar\<close> of \<open>vh.edges_planar\<close> on the edge list.
\<close>

definition Land ::
  "config \<Rightarrow> rng \<Rightarrow> (int \<times> int) list \<Rightarrow> (int, rat \<times> rat) dict \<Rightarrow> bool \<Rightarrow> nat
     \<Rightarrow> py_error + land \<times> nat" where
  "Land cfg g edges pos planar k =
     (case create_landpatches cfg edges pos empty_land of
        Inl e \<Rightarrow> Inl e
      | Inr L1 \<Rightarrow>
          (case spawn_firefighters cfg g (L1\<lparr>edgelist := edges, positions := pos\<rparr>) k of
             Inl e \<Rightarrow> Inl e
           | Inr (L2, k') \<Rightarrow>
               if \<not> planar then Inl ValueError
               else
                 (case validate_graph (positions L2) (heap L2) (land_patches L2) of
                    Inl e \<Rightarrow> Inl e
                  | Inr ok \<Rightarrow> if \<not> ok then Inl RuntimeError else Inr (L2, k'))))"

section \<open>Observations and scenarios\<close>

text \<open>The recursive equation of the retry loop, for evaluation.\<close>

declare move_retry.simps [code]

subsection \<open>Calls on one tree\<close>

text \<open>A call of one of the three methods that write the health of a tree, and a
  sequence of such calls on the same tree.\<close>

datatype tree_call = Update int | Set_tree_stats int | Fight_fire firefighter

fun call :: "tree_call \<Rightarrow> treepatch \<Rightarrow> treepatch" where
  "call (Update roll) t = fst (treepatch_update roll t)"
| "call (Set_tree_stats stats) t = set_tree_stats stats t"
| "call (Fight_fire f) t = fight_fire f t"

definition calls :: "tree_call list \<Rightarrow> treepatch \<Rightarrow> treepatch" where
  "calls cs t = fold call cs t"

text \<open>The argument of \<open>set_tree_stats\<close> and the skill of the firefighter are not
  negative.\<close>

fun non_negative :: "tree_call \<Rightarrow> bool" where
  "non_negative (Update roll) = True"
| "non_negative (Set_tree_stats stats) = (0 \<le> stats)"
| "non_negative (Fight_fire f) = (0 \<le> avg_skill f)"

definition healthy :: "treepatch \<Rightarrow> bool" where
  "healthy t \<longleftrightarrow> 0 \<le> tree_stats t \<and> tree_stats t \<le> 256"

subsection \<open>Counting the patches of a land\<close>

definition tree_population :: "land \<Rightarrow> nat" where
  "tree_population L =
     length (filter (\<lambda>r. is_tree (heap L ! r)) (dict_values (land_patches L)))"

definition rock_population :: "land \<Rightarrow> nat" where
  "rock_population L =
     length (filter (\<lambda>r. \<not> is_tree (heap L ! r)) (dict_values (land_patches L)))"

text \<open>The test of \<open>create_landpatch\<close>, and the numbers (patches, trees, rocks) that the
  greedy fill reaches after a number of creations.\<close>

definition wants_tree :: "config \<Rightarrow> land \<Rightarrow> bool" where
  "wants_tree cfg L \<longleftrightarrow>
     (if length (land_patches L) > 0
      then of_int (number_of_trees L) / of_nat (length (land_patches L)) else 0)
       < landscape cfg / 100"

definition fill_step :: "rat \<Rightarrow> nat \<times> int \<times> int \<Rightarrow> nat \<times> int \<times> int" where
  "fill_step percent s =
     (case s of (n, trees, rocks) \<Rightarrow>
        if (if n > 0 then of_int trees / of_nat n else 0) < percent / 100
        then (Suc n, trees + 1, rocks) else (Suc n, trees, rocks + 1))"

fun fill :: "rat \<Rightarrow> nat \<Rightarrow> nat \<times> int \<times> int \<Rightarrow> nat \<times> int \<times> int" where
  "fill percent 0 s = s"
| "fill percent (Suc m) s = fill percent m (fill_step percent s)"

definition summary :: "land \<Rightarrow> nat \<times> int \<times> int" where
  "summary L = (length (land_patches L), number_of_trees L, number_of_rocks L)"

text \<open>The counters of the graph builder agree with the patch table, whose references
  are all allocated.\<close>

definition counted :: "land \<Rightarrow> bool" where
  "counted L \<longleftrightarrow>
     (\<forall>r\<in>set (dict_values (land_patches L)). r < length (heap L)) \<and>
     int (tree_population L) = number_of_trees L \<and>
     int (rock_population L) = number_of_rocks L"

subsection \<open>Reading a patch through the table and through a neighbour\<close>

text \<open>\<open>land_patches[i]\<close>, and \<open>land_patches[q].get_neighbors()[i]\<close>.\<close>

definition lookup_patch :: "land \<Rightarrow> int \<Rightarrow> py_error + obj" where
  "lookup_patch L i =
     (case dict_get (land_patches L) i of Inl e \<Rightarrow> Inl e | Inr r \<Rightarrow> Inr (heap L ! r))"

definition resolve_neighbor :: "land \<Rightarrow> int \<Rightarrow> int \<Rightarrow> py_error + obj" where
  "resolve_neighbor L q i =
     (case dict_get (land_patches L) q of
        Inl e \<Rightarrow> Inl e
      | Inr r \<Rightarrow>
          (case dict_get (get_neighbors (heap L ! r)) i of
             Inl e \<Rightarrow> Inl e
           | Inr n \<Rightarrow> Inr (heap L ! n)))"

subsection \<open>Configurations and graphs\<close>

text \<open>The default configuration of the program, and one with ignition 0, transmission
  100, respawn 0 and no firefighter.\<close>

definition default_config :: config where
  "default_config =
     \<lparr>landscape = 80, probabilities = (1, 30, 10), firefighters_config = (2, 50)\<rparr>"

definition transmission_config :: config where
  "transmission_config =
     \<lparr>landscape = 100, probabilities = (0, 100, 0), firefighters_config = (0, 0)\<rparr>"

definition two_positions :: "(int, rat \<times> rat) dict" where
  "two_positions = [(1, (0, 0)), (2, (0, 0))]"

definition three_positions :: "(int, rat \<times> rat) dict" where
  "three_positions = [(1, (0, 0)), (2, (0, 0)), (3, (0, 0))]"

definition four_positions :: "(int, rat \<times> rat) dict" where
  "four_positions = [(1, (0, 0)), (2, (0, 0)), (3, (0, 0)), (4, (0, 0))]"

definition hundred_positions :: "(int, rat \<times> rat) dict" where
  "hundred_positions = map (\<lambda>i. (int i, (0, 0))) [0..<100]"

text \<open>Two trees joined by an edge, and the cycle 1-2-3-4-1 of four trees, as the graph
  builder links them; the tree with id 1 has the given lit state.\<close>

definition forest_pair :: "bool \<Rightarrow> land" where
  "forest_pair lit =
     \<lparr>heap = [Tree (Treepatch 1 [(2, 1)] lit 0),
              Tree (Treepatch 2 [(1, 0)] False 0)],
      land_patches = [(1, 0), (2, 1)],
      edgelist = [(1, 2)],
      positions = two_positions,
      firefighters = [], number_of_rocks = 0, number_of_trees = 2\<rparr>"

definition forest_cycle :: "bool \<Rightarrow> land" where
  "forest_cycle lit =
     \<lparr>heap = [Tree (Treepatch 1 [(2, 1), (4, 3)] lit 0),
              Tree (Treepatch 2 [(1, 0), (3, 2)] False 0),
              Tree (Treepatch 3 [(2, 1), (4, 3)] False 0),
              Tree (Treepatch 4 [(3, 2), (1, 0)] False 0)],
      land_patches = [(1, 0), (2, 1), (3, 2), (4, 3)],
      edgelist = [(1, 2), (2, 3), (3, 4), (4, 1)],
      positions = four_positions,
      firefighters = [], number_of_rocks = 0, number_of_trees = 4\<rparr>"

text \<open>The pair of trees with tree 1 on fire at health 10.\<close>

definition burnt_pair :: land where
  "burnt_pair =
     (forest_pair True)\<lparr>heap :=
        (heap (forest_pair True))[0 := Tree (set_tree_stats 10 (Treepatch 1 [(2, 1)] True 0))]\<rparr>"

text \<open>The path 1-2-3 as the graph builder makes it under the default
  configuration.\<close>

definition path_land :: land where
  "path_land =
     \<lparr>heap = [Tree (Treepatch 1 [(2, 1)] False 1),
              Rock (Rockpatch 2 [(1, 0), (3, 2)] 10),
              Tree (Treepatch 3 [(2, 1)] False 1)],
      land_patches = [(1, 0), (2, 1), (3, 2)],
      edgelist = [], positions = [],
      firefighters = [], number_of_rocks = 1, number_of_trees = 2\<rparr>"

text \<open>\<open>validate_graph\<close> on the patch table that the graph builder makes of a graph.\<close>

definition validate_built ::
  "(int \<times> int) list \<Rightarrow> (int, rat \<times> rat) dict \<Rightarrow> py_error + bool" where
  "validate_built edges pos =
     (case create_landpatches default_config edges pos empty_land of
        Inl e \<Rightarrow> Inl e
      | Inr L \<Rightarrow> validate_graph pos (heap L) (land_patches L))"

section \<open>The update of one tree\<close>

text \<open>
  Claim C5. One \<open>Treepatch.update\<close> first rolls for autocombustion, and a roll within
  the probability makes the tree lit. Then an unlit tree gains exactly 10 health, capped
  at 256, and stays; a lit tree with at least 20 health loses exactly 20 and stays; a lit
  tree with less than 20 health keeps its health and signals the mutation. This holds for
  every tree, whatever its health.
\<close>

theorem treepatch_update_step:
  "(let lit = (lit_state t \<or> of_int roll \<le> prob_autcombustion t);
        (t', m) = treepatch_update roll t
    in lit_state t' = lit \<and>
       (\<not> lit \<longrightarrow> tree_stats t' = min (tree_stats t + 10) 256 \<and> \<not> m) \<and>
       (lit \<and> tree_stats t - 20 \<ge> 0 \<longrightarrow> tree_stats t' = tree_stats t - 20 \<and> \<not> m) \<and>
       (lit \<and> tree_stats t - 20 < 0 \<longrightarrow> tree_stats t' = tree_stats t \<and> m))"
  by (simp add: treepatch_update_def Let_def tree_stats_max_def tree_stats_min_def min_def)

text \<open>An unlit tree at health 100, a lit tree at health 100, a lit tree at health 10,
  and a tree with autocombustion probability 1 that rolls 1.\<close>

theorem treepatch_update_step_witness:
  "tree_stats (fst (treepatch_update 50 (set_tree_stats 100 (Treepatch 1 [] False 0)))) = 110 \<and>
   \<not> snd (treepatch_update 50 (set_tree_stats 100 (Treepatch 1 [] False 0))) \<and>
   tree_stats (fst (treepatch_update 50 (set_tree_stats 100 (Treepatch 1 [] True 0)))) = 80 \<and>
   \<not> snd (treepatch_update 50 (set_tree_stats 100 (Treepatch 1 [] True 0))) \<and>
   tree_stats (fst (treepatch_update 50 (set_tree_stats 10 (Treepatch 1 [] True 0)))) = 10 \<and>
   snd (treepatch_update 50 (set_tree_stats 10 (Treepatch 1 [] True 0))) \<and>
   lit_state (fst (treepatch_update 1 (Treepatch 1 [] False 1)))"
  using treepatch_update_step [of "set_tree_stats 100 (Treepatch 1 [] False 0)" 50]
        treepatch_update_step [of "set_tree_stats 100 (Treepatch 1 [] True 0)" 50]
        treepatch_update_step [of "set_tree_stats 10 (Treepatch 1 [] True 0)" 50]
        treepatch_update_step [of "Treepatch 1 [] False 1" 1]
  by (simp add: Let_def split_beta set_tree_stats_def Treepatch_def tree_stats_max_def
        set_lit_state_def)

section \<open>The health of a tree\<close>

lemma call_healthy: "healthy t \<Longrightarrow> non_negative c \<Longrightarrow> healthy (call c t)"
  by (cases c)
     (auto simp: healthy_def treepatch_update_def set_tree_stats_def fight_fire_def
        set_lit_state_def Let_def tree_stats_max_def tree_stats_min_def)

lemma call_full_unlit:
  "healthy t \<Longrightarrow> non_negative c \<Longrightarrow> tree_stats (call c t) = 256 \<Longrightarrow> \<not> lit_state (call c t)"
  by (cases c)
     (auto simp: healthy_def treepatch_update_def set_tree_stats_def fight_fire_def
        set_lit_state_def Let_def tree_stats_max_def tree_stats_min_def split: if_splits)

lemma fight_fire_mono:
  "healthy t \<Longrightarrow> 0 \<le> avg_skill f \<Longrightarrow> tree_stats t \<le> tree_stats (fight_fire f t)"
  by (auto simp: healthy_def set_tree_stats_def fight_fire_def
        set_lit_state_def Let_def tree_stats_max_def)

lemma calls_healthy: "healthy t \<Longrightarrow> \<forall>c\<in>set cs. non_negative c \<Longrightarrow> healthy (calls cs t)"
proof (induction cs arbitrary: t)
  case Nil
  then show ?case by (simp add: calls_def)
next
  case (Cons c cs)
  then have "healthy (call c t)"
    by (simp add: call_healthy)
  with Cons show ?case
    by (simp add: calls_def)
qed

text \<open>
  Claim C4, as stated, fails: \<open>set_tree_stats\<close> caps the health at 256 but has no floor,
  so a call with a negative argument leaves a negative health.
\<close>

theorem set_tree_stats_negative_counterexample:
  "0 \<le> tree_stats (Treepatch 1 [] False 0) \<and> tree_stats (Treepatch 1 [] False 0) \<le> 256 \<and>
   tree_stats (calls [Set_tree_stats (- 1)] (Treepatch 1 [] False 0)) = - 1"
  by (simp add: calls_def set_tree_stats_def Treepatch_def tree_stats_max_def Let_def)

text \<open>
  Claim C4, amended. For a tree whose health starts in \<open>[0, 256]\<close>, after any sequence of
  calls of \<open>Treepatch.update\<close>, of \<open>set_tree_stats\<close> with a non-negative argument and of
  \<open>fight_fire\<close> by firefighters of non-negative skill, the health is in \<open>[0, 256]\<close>; a
  further such call that leaves the health at 256 leaves the tree unlit; and a further
  \<open>fight_fire\<close> does not decrease the health.
\<close>

theorem tree_health_invariant:
  assumes "0 \<le> tree_stats t" and "tree_stats t \<le> 256"
      and "\<forall>c\<in>set cs. non_negative c"
  shows "0 \<le> tree_stats (calls cs t) \<and> tree_stats (calls cs t) \<le> 256 \<and>
         (\<forall>c. non_negative c \<and> tree_stats (call c (calls cs t)) = 256
              \<longrightarrow> \<not> lit_state (call c (calls cs t))) \<and>
         (\<forall>f. 0 \<le> avg_skill f
              \<longrightarrow> tree_stats (calls cs t) \<le> tree_stats (fight_fire f (calls cs t)))"
proof -
  from assms(1,2) have "healthy t"
    by (simp add: healthy_def)
  then have h: "healthy (calls cs t)"
    using assms(3) by (rule calls_healthy)
  have "\<not> lit_state (call c (calls cs t))"
    if "non_negative c" and "tree_stats (call c (calls cs t)) = 256" for c
    using h that by (rule call_full_unlit)
  moreover have "tree_stats (calls cs t) \<le> tree_stats (fight_fire f (calls cs t))"
    if "0 \<le> avg_skill f" for f
    using h that by (rule fight_fire_mono)
  ultimately show ?thesis
    using h by (simp add: healthy_def)
qed

text \<open>A lit tree is updated twice and then fought by a firefighter of skill 50: the
  health goes from 256 to 216 and back to 256, and the fire is out.\<close>

theorem tree_health_invariant_witness:
  "tree_stats (calls [Update 50, Update 50] (Treepatch 1 [] True 0)) = 216 \<and>
   tree_stats (call (Fight_fire \<lparr>firefighter_id = 0, avg_skill = 50\<rparr>)
                 (calls [Update 50, Update 50] (Treepatch 1 [] True 0))) = 256 \<and>
   \<not> lit_state (call (Fight_fire \<lparr>firefighter_id = 0, avg_skill = 50\<rparr>)
                  (calls [Update 50, Update 50] (Treepatch 1 [] True 0))) \<and>
   tree_stats (calls [Update 50, Update 50] (Treepatch 1 [] True 0))
     \<le> tree_stats (fight_fire \<lparr>firefighter_id = 0, avg_skill = 50\<rparr>
                     (calls [Update 50, Update 50] (Treepatch 1 [] True 0)))"
proof -
  let ?t = "Treepatch 1 [] True 0"
  let ?f = "\<lparr>firefighter_id = 0, avg_skill = 50\<rparr>"
  have t: "0 \<le> tree_stats ?t" "tree_stats ?t \<le> 256"
    by (simp_all add: Treepatch_def tree_stats_max_def)
  have c: "\<forall>c\<in>set [Update 50, Update 50]. non_negative c"
    by simp
  have v: "tree_stats (calls [Update 50, Update 50] ?t) = 216"
    by (simp add: calls_def treepatch_update_def Treepatch_def Let_def tree_stats_max_def
          tree_stats_min_def)
  have w: "tree_stats (call (Fight_fire ?f) (calls [Update 50, Update 50] ?t)) = 256"
    by (simp add: calls_def treepatch_update_def Treepatch_def Let_def tree_stats_max_def
          tree_stats_min_def fight_fire_def set_tree_stats_def set_lit_state_def)
  have n: "non_negative (Fight_fire ?f)" "0 \<le> avg_skill ?f"
    by simp_all
  note inv = tree_health_invariant [OF t c]
  from inv n(1) w
  have "\<not> lit_state (call (Fight_fire ?f) (calls [Update 50, Update 50] ?t))"
    by blast
  moreover from inv n(2)
  have "tree_stats (calls [Update 50, Update 50] ?t)
          \<le> tree_stats (fight_fire ?f (calls [Update 50, Update 50] ?t))"
    by blast
  ultimately show ?thesis
    using v w by blast
qed

section \<open>Mutation\<close>

lemma dict_get_dict_set_same: "dict_get (dict_set d k v) k = Inr v"
  by (induction d) (auto simp: dict_get_def)

lemma mutate_keeps:
  "is_tree (mutate Q) = (\<not> is_tree Q) \<and> get_patch_id (mutate Q) = get_patch_id Q \<and>
   get_neighbors (mutate Q) = get_neighbors Q"
  by (cases Q)
     (simp_all add: mutate_def is_tree_def get_patch_id_def get_neighbors_def base_def
        treepatch_mutate_def rockpatch_mutate_def Rockpatch_def Treepatch_def
        set_tree_stats_def set_lit_state_def Let_def landpatch.truncate_def tree_stats_max_def)

text \<open>
  Claim C6. The replacement that \<open>mutate\<close> returns for a patch \<open>P\<close> is of the opposite
  variant and has the id and the neighbour ids of \<open>P\<close>; and after \<open>mutate_landpatch\<close> has
  installed the replacement of the patch at \<open>r\<close>, the patch table has, under the id of
  that patch, the replacement, with the same neighbour ids.
\<close>

theorem mutate_preserves_id_and_neighbors:
  "is_tree (mutate P) = (\<not> is_tree P) \<and>
   get_patch_id (mutate P) = get_patch_id P \<and>
   set (get_neighbors_id (mutate P)) = set (get_neighbors_id P) \<and>
   (\<exists>x. lookup_patch (mutate_landpatch r L) (get_patch_id (heap L ! r)) = Inr x \<and>
        x = mutate (heap L ! r) \<and>
        set (get_neighbors_id x) = set (get_neighbors_id (heap L ! r)))"
proof -
  have "dict_get (land_patches (mutate_landpatch r L)) (get_patch_id (heap L ! r)) =
        Inr (length (heap L))"
    by (simp add: mutate_landpatch_def Let_def mutate_keeps dict_get_dict_set_same)
  moreover have "heap (mutate_landpatch r L) ! length (heap L) = mutate (heap L ! r)"
    by (simp add: mutate_landpatch_def Let_def)
  ultimately show ?thesis
    by (simp add: mutate_keeps Let_def get_neighbors_id_def lookup_patch_def)
qed

text \<open>The burning tree 1 of the pair of trees, whose only neighbour is patch 2.\<close>

theorem mutate_preserves_id_and_neighbors_witness:
  "\<not> is_tree (mutate (heap burnt_pair ! 0)) \<and>
   get_patch_id (mutate (heap burnt_pair ! 0)) = 1 \<and>
   set (get_neighbors_id (mutate (heap burnt_pair ! 0))) = {2} \<and>
   (\<exists>x. lookup_patch (mutate_landpatch 0 burnt_pair) 1 = Inr x \<and>
        x = mutate (heap burnt_pair ! 0) \<and> set (get_neighbors_id x) = {2})"
proof -
  have "is_tree (heap burnt_pair ! 0)" "get_patch_id (heap burnt_pair ! 0) = 1"
       "get_neighbors_id (heap burnt_pair ! 0) = [2]"
    by (simp_all add: burnt_pair_def forest_pair_def is_tree_def get_patch_id_def
          get_neighbors_id_def get_neighbors_def base_def landpatch.truncate_def
          set_tree_stats_def Treepatch_def Let_def tree_stats_max_def dict_keys_def)
  with mutate_preserves_id_and_neighbors [of "heap burnt_pair ! 0" 0 burnt_pair]
  show ?thesis
    by simp
qed

text \<open>
  Claim C10. The replacement that \<open>mutate\<close> returns has no firefighter and the default
  position \<open>(0.0, 0.0)\<close>, whatever the flag and the position of the outgoing patch,
  while it has the id and the neighbour dictionary of the outgoing patch: the occupancy
  and the position are not carried across a mutation, the id and the neighbours are.
\<close>

theorem mutate_resets_firefighter_and_position:
  "has_firefighter (base (mutate P)) = False \<and>
   position (base (mutate P)) = (0, 0) \<and>
   get_patch_id (mutate P) = get_patch_id P \<and>
   get_neighbors (mutate P) = get_neighbors P"
proof -
  have "has_firefighter (base (mutate P)) = False \<and> position (base (mutate P)) = (0, 0)"
    by (cases P)
       (simp_all add: mutate_def base_def treepatch_mutate_def rockpatch_mutate_def
          Rockpatch_def Treepatch_def set_tree_stats_def set_lit_state_def Let_def
          landpatch.truncate_def tree_stats_max_def)
  with mutate_keeps [of P] show ?thesis
    by simp
qed

text \<open>A rock with id 5 and the neighbour 6, at position \<open>(3, 4)\<close>, with a firefighter
  on it.\<close>

theorem mutate_resets_firefighter_and_position_witness:
  "has_firefighter
     (base (set_firefighter True (set_position (3, 4) (Rock (Rockpatch 5 [(6, 1)] 0))))) \<and>
   position
     (base (set_firefighter True (set_position (3, 4) (Rock (Rockpatch 5 [(6, 1)] 0)))))
     = (3, 4) \<and>
   \<not> has_firefighter
       (base (mutate
          (set_firefighter True (set_position (3, 4) (Rock (Rockpatch 5 [(6, 1)] 0)))))) \<and>
   position
     (base (mutate
        (set_firefighter True (set_position (3, 4) (Rock (Rockpatch 5 [(6, 1)] 0))))))
     = (0, 0) \<and>
   get_patch_id
     (mutate (set_firefighter True (set_position (3, 4) (Rock (Rockpatch 5 [(6, 1)] 0)))))
     = 5 \<and>
   get_neighbors
     (mutate (set_firefighter True (set_position (3, 4) (Rock (Rockpatch 5 [(6, 1)] 0)))))
     = [(6, 1)]"
  using mutate_resets_firefighter_and_position
          [of "set_firefighter True (set_position (3, 4) (Rock (Rockpatch 5 [(6, 1)] 0)))"]
  by (simp add: set_firefighter_def set_position_def base_def Rockpatch_def
        landpatch.truncate_def get_patch_id_def get_neighbors_def)

section \<open>The greedy fill of the graph builder\<close>

lemma dict_set_fresh: "k \<notin> set (dict_keys d) \<Longrightarrow> dict_set d k v = d @ [(k, v)]"
  by (induction d) (auto simp: dict_keys_def)

lemma dict_get_key: "k \<in> set (dict_keys d) \<Longrightarrow> \<exists>v. dict_get d k = Inr v"
  by (cases "map_of d k") (auto simp: dict_get_def dict_keys_def map_of_eq_None_iff)

lemma get_patch_id_new [simp]:
  "get_patch_id (set_position pos (Tree (Treepatch pid nbrs lit p))) = pid"
  "get_patch_id (set_position pos (Rock (Rockpatch pid nbrs q))) = pid"
  by (simp_all add: get_patch_id_def set_position_def base_def Treepatch_def Rockpatch_def
        landpatch.truncate_def)

lemma is_tree_new [simp]:
  "is_tree (set_position pos (Tree t))" "\<not> is_tree (set_position pos (Rock r))"
  by (simp_all add: is_tree_def set_position_def)

lemma filter_old_refs:
  "\<forall>r\<in>set rs. r < length h \<Longrightarrow>
   filter (\<lambda>r. P ((h @ [x]) ! r)) rs = filter (\<lambda>r. P (h ! r)) rs"
  by (induction rs) (auto simp: nth_append)

lemma create_landpatch_fresh:
  assumes "pid \<notin> set (dict_keys (land_patches L))"
  shows "\<exists>x. is_tree x = wants_tree cfg L \<and>
             heap (create_landpatch cfg pid pos L) = heap L @ [x] \<and>
             land_patches (create_landpatch cfg pid pos L) =
               land_patches L @ [(pid, length (heap L))] \<and>
             number_of_trees (create_landpatch cfg pid pos L) =
               (if wants_tree cfg L then number_of_trees L + 1 else number_of_trees L) \<and>
             number_of_rocks (create_landpatch cfg pid pos L) =
               (if wants_tree cfg L then number_of_rocks L else number_of_rocks L + 1)"
  using assms
  by (simp add: create_landpatch_def Let_def wants_tree_def dict_set_fresh)

lemma create_landpatch_counted:
  assumes "counted L" and "pid \<notin> set (dict_keys (land_patches L))"
  shows "counted (create_landpatch cfg pid pos L) \<and>
         summary (create_landpatch cfg pid pos L) = fill_step (landscape cfg) (summary L) \<and>
         dict_keys (land_patches (create_landpatch cfg pid pos L)) =
           dict_keys (land_patches L) @ [pid]"
proof -
  let ?L' = "create_landpatch cfg pid pos L"
  from assms(1) have old: "\<forall>r\<in>set (dict_values (land_patches L)). r < length (heap L)"
    and t: "int (tree_population L) = number_of_trees L"
    and r: "int (rock_population L) = number_of_rocks L"
    by (simp_all add: counted_def)
  from create_landpatch_fresh [OF assms(2), of cfg pos]
  obtain x where x: "is_tree x = wants_tree cfg L"
    and h: "heap ?L' = heap L @ [x]"
    and tb: "land_patches ?L' = land_patches L @ [(pid, length (heap L))]"
    and nt: "number_of_trees ?L' =
               (if wants_tree cfg L then number_of_trees L + 1 else number_of_trees L)"
    and nr: "number_of_rocks ?L' =
               (if wants_tree cfg L then number_of_rocks L else number_of_rocks L + 1)"
    by blast
  have vals: "dict_values (land_patches ?L') = dict_values (land_patches L) @ [length (heap L)]"
    by (simp add: tb dict_values_def)
  have valid: "\<forall>r\<in>set (dict_values (land_patches ?L')). r < length (heap ?L')"
    using old by (auto simp: vals h)
  have tp: "tree_population ?L' = tree_population L + (if wants_tree cfg L then 1 else 0)"
    using old by (simp add: tree_population_def vals h filter_old_refs x)
  have rp: "rock_population ?L' = rock_population L + (if wants_tree cfg L then 0 else 1)"
    using old
      filter_old_refs [of "dict_values (land_patches L)" "heap L" "\<lambda>y. \<not> is_tree y" x]
    by (simp add: rock_population_def vals h x)
  have c: "counted ?L'"
    using valid tp rp t r nt nr by (simp add: counted_def)
  have s: "summary ?L' = fill_step (landscape cfg) (summary L)"
    using nt nr by (simp add: summary_def fill_step_def tb wants_tree_def)
  have k: "dict_keys (land_patches ?L') = dict_keys (land_patches L) @ [pid]"
    by (simp add: tb dict_keys_def)
  from c s k show ?thesis by simp
qed

lemma create_patches_counted:
  assumes "counted L" and "distinct (dict_keys ps)"
      and "set (dict_keys ps) \<inter> set (dict_keys (land_patches L)) = {}"
  shows "counted (create_patches cfg ps L) \<and>
         summary (create_patches cfg ps L) = fill (landscape cfg) (length ps) (summary L) \<and>
         dict_keys (land_patches (create_patches cfg ps L)) =
           dict_keys (land_patches L) @ dict_keys ps"
  using assms
proof (induction ps arbitrary: L)
  case Nil
  then show ?case by (simp add: dict_keys_def)
next
  case (Cons p ps)
  obtain pid pos where p: "p = (pid, pos)" by (cases p)
  from Cons.prems p have fresh: "pid \<notin> set (dict_keys (land_patches L))"
    by (auto simp: dict_keys_def)
  note step = create_landpatch_counted [OF Cons.prems(1) fresh, of cfg pos]
  have "set (dict_keys ps) \<inter>
        set (dict_keys (land_patches (create_landpatch cfg pid pos L))) = {}"
    using Cons.prems p step by (auto simp: dict_keys_def)
  moreover have "distinct (dict_keys ps)"
    using Cons.prems by (simp add: dict_keys_def)
  ultimately show ?case
    using Cons.IH [of "create_landpatch cfg pid pos L"] step p
    by (simp add: dict_keys_def)
qed

lemma is_tree_add_landpatch_to_neighbour:
  "is_tree (add_landpatch_to_neighbour h a b ! r) = is_tree (h ! r)"
proof (cases "a < length h")
  case True
  have "is_tree (set_neighbors d x) = is_tree x" for d x
    by (cases x) (simp_all add: set_neighbors_def is_tree_def)
  with True show ?thesis
    by (simp add: add_landpatch_to_neighbour_def nth_list_update)
next
  case False
  then have "length h \<le> a"
    by simp
  then show ?thesis
    by (simp add: add_landpatch_to_neighbour_def list_update_beyond)
qed

lemma add_edges_frame:
  assumes "\<forall>(a, b)\<in>set es. a \<in> set (dict_keys (land_patches L)) \<and>
                            b \<in> set (dict_keys (land_patches L))"
  shows "\<exists>L'. add_edges es L = Inr L' \<and> land_patches L' = land_patches L \<and>
              number_of_trees L' = number_of_trees L \<and>
              number_of_rocks L' = number_of_rocks L \<and>
              (\<forall>r. is_tree (heap L' ! r) = is_tree (heap L ! r))"
  using assms
proof (induction es arbitrary: L)
  case Nil
  then show ?case by simp
next
  case (Cons e es)
  obtain a b where e: "e = (a, b)" by (cases e)
  from Cons.prems e obtain ra rb
    where ra: "dict_get (land_patches L) a = Inr ra"
      and rb: "dict_get (land_patches L) b = Inr rb"
    using dict_get_key [of a "land_patches L"] dict_get_key [of b "land_patches L"] by auto
  let ?h = "add_landpatch_to_neighbour (add_landpatch_to_neighbour (heap L) ra rb) rb ra"
  let ?L1 = "L\<lparr>heap := ?h\<rparr>"
  have step: "add_edges (e # es) L = add_edges es ?L1"
    by (simp add: e ra rb Let_def)
  have "\<forall>(a, b)\<in>set es. a \<in> set (dict_keys (land_patches ?L1)) \<and>
                          b \<in> set (dict_keys (land_patches ?L1))"
    using Cons.prems by simp
  from Cons.IH [OF this] obtain L' where L': "add_edges es ?L1 = Inr L'"
    "land_patches L' = land_patches L" "number_of_trees L' = number_of_trees L"
    "number_of_rocks L' = number_of_rocks L"
    "\<forall>r. is_tree (heap L' ! r) = is_tree (?h ! r)"
    by auto
  then show ?case
    by (simp add: step is_tree_add_landpatch_to_neighbour)
qed

lemma fill_80_100: "fill 80 100 (0, 0, 0) = (100, 80, 20)"
  by code_simp

text \<open>
  Claim C7. For every positions map with exactly 100 distinct ids and a landscape ratio
  of 80 percent, the patch creation of a fresh graph builder returns, whatever the edges
  between these ids, and it has made exactly 80 tree patches and 20 rock patches: by its
  counters and by the contents of the patch table. The two quotients that the test of
  \<open>create_landpatch\<close> compares are taken exactly.
\<close>

theorem greedy_fill_100_nodes:
  assumes "distinct (dict_keys pos)" and "length pos = 100" and "landscape cfg = 80"
      and "\<forall>(a, b)\<in>set edges. a \<in> set (dict_keys pos) \<and> b \<in> set (dict_keys pos)"
  shows "\<exists>L. create_landpatches cfg edges pos empty_land = Inr L \<and>
             number_of_trees L = 80 \<and> number_of_rocks L = 20 \<and>
             tree_population L = 80 \<and> rock_population L = 20"
proof -
  let ?L1 = "create_patches cfg pos empty_land"
  have c0: "counted empty_land"
    by (simp add: counted_def empty_land_def tree_population_def rock_population_def
          dict_values_def)
  have "set (dict_keys pos) \<inter> set (dict_keys (land_patches empty_land)) = {}"
    by (simp add: empty_land_def dict_keys_def)
  from create_patches_counted [OF c0 assms(1) this, of cfg]
  have c1: "counted ?L1"
    and s1: "summary ?L1 = fill 80 100 (summary empty_land)"
    and k1: "dict_keys (land_patches ?L1) = dict_keys pos"
    using assms(2,3) by (simp_all add: empty_land_def dict_keys_def)
  from s1 have s: "summary ?L1 = (100, 80, 20)"
    by (simp add: summary_def empty_land_def fill_80_100)
  from assms(4) k1
  have "\<forall>(a, b)\<in>set edges. a \<in> set (dict_keys (land_patches ?L1)) \<and>
                             b \<in> set (dict_keys (land_patches ?L1))"
    by simp
  from add_edges_frame [OF this] obtain L where L: "add_edges edges ?L1 = Inr L"
    "land_patches L = land_patches ?L1" "number_of_trees L = number_of_trees ?L1"
    "number_of_rocks L = number_of_rocks ?L1"
    "\<forall>r. is_tree (heap L ! r) = is_tree (heap ?L1 ! r)"
    by blast
  have "tree_population L = tree_population ?L1" "rock_population L = rock_population ?L1"
    using L by (simp_all add: tree_population_def rock_population_def)
  moreover have "int (tree_population ?L1) = 80" "int (rock_population ?L1) = 20"
    using c1 s by (simp_all add: counted_def summary_def)
  ultimately show ?thesis
    using L s by (simp add: create_landpatches_def summary_def)
qed

text \<open>The ids 0 to 99 with the edges 0-1 and 1-2, under the default configuration.\<close>

theorem greedy_fill_100_nodes_witness:
  "\<exists>L. create_landpatches default_config [(0, 1), (1, 2)] hundred_positions empty_land = Inr L \<and>
       number_of_trees L = 80 \<and> number_of_rocks L = 20 \<and>
       tree_population L = 80 \<and> rock_population L = 20"
proof -
  have k: "dict_keys hundred_positions = map int [0..<100]"
    by (simp add: hundred_positions_def dict_keys_def comp_def)
  have d: "distinct (dict_keys hundred_positions)"
    unfolding k by (simp add: distinct_map inj_on_def)
  have l: "length hundred_positions = 100"
    by (simp add: hundred_positions_def)
  have c: "landscape default_config = 80"
    by (simp add: default_config_def)
  have "(0::int) = int 0" "(1::int) = int 1" "(2::int) = int 2"
    by simp_all
  then have "(0::int) \<in> int ` {0..<100}" "(1::int) \<in> int ` {0..<100}"
    "(2::int) \<in> int ` {0..<100}"
    by (auto simp del: of_nat_0 of_nat_1 of_nat_numeral intro!: imageI)
  then have e: "\<forall>(a, b)\<in>set [(0, 1), (1, 2)].
                  a \<in> set (dict_keys hundred_positions) \<and> b \<in> set (dict_keys hundred_positions)"
    unfolding k by simp
  from greedy_fill_100_nodes [OF d l c e] show ?thesis .
qed

section \<open>One step of the land\<close>

lemma randint_1_100: "1 \<le> randint g k 1 100 \<and> randint g k 1 100 \<le> 100"
  by (simp add: randint_def)

lemma roll_positive:
  "\<not> randint g k 1 100 < 0" "\<not> randint g k 1 100 \<le> 0" "randint g k 1 100 \<noteq> 0"
  using randint_1_100 [of g k] by auto

text \<open>The loop of \<open>update_fire_transmition\<close> sets the lit state of neighbours that are
  lit already: it never changes a patch.\<close>

lemma transmit_heap: "fst (transmit cfg g rs h k) = h"
proof (induction rs arbitrary: k)
  case Nil
  show ?case by simp
next
  case (Cons r rs)
  have "h[r := Tree (set_lit_state True t)] = h" if "h ! r = Tree t" "lit_state t" for t
  proof -
    from that(2) have "set_lit_state True t = t"
      by (cases t) (simp add: set_lit_state_def)
    with that(1) have "h[r := Tree (set_lit_state True t)] = h[r := h ! r]"
      by simp
    then show ?thesis
      by simp
  qed
  with Cons show ?case
    by (simp split: obj.splits)
qed

lemma update_fire_transmition_heap: "fst (update_fire_transmition cfg g p h k) = h"
  by (simp add: update_fire_transmition_def transmit_heap)

lemmas step_defs =
  land_update_def forest_cycle_def forest_pair_def burnt_pair_def transmission_config_def
  dict_keys_def upt_rec update_fire_transmition_def get_neighbors_def base_def
  landpatch.truncate_def Treepatch_def dict_values_def treepatch_update_def Let_def
  tree_stats_max_def tree_stats_min_def set_lit_state_def roll_positive lookup_patch_def
  resolve_neighbor_def dict_get_def two_positions_def four_positions_def set_tree_stats_def
  mutate_landpatch_def mutate_def treepatch_mutate_def Rockpatch_def get_patch_id_def
  default_prob_def

text \<open>
  Claim C1, evaluated on the code. With ignition 0, transmission 100, respawn 0 and no
  firefighter, one \<open>Land.update\<close> on two linked trees of which tree 1 is lit, whatever the
  random draws: tree 1 goes from health 256 to 236, and tree 2 is as before, unlit. The
  same on the cycle of four trees: trees 2, 3 and 4 are as before, so that no neighbour
  of the lit tree has become lit, where the claim has exactly one.
\<close>

theorem fire_transmission_lights_no_neighbor:
  "land_update transmission_config g (forest_pair True) k =
     Some (Inr ((forest_pair True)\<lparr>heap :=
                  [Tree ((Treepatch 1 [(2, 1)] True 0)
                           \<lparr>tree_stats := 236, color := Some (- 20)\<rparr>),
                   Tree (Treepatch 2 [(1, 0)] False 0)]\<rparr>, k + 3)) \<and>
   land_update transmission_config g (forest_cycle True) k =
     Some (Inr ((forest_cycle True)\<lparr>heap :=
                  [Tree ((Treepatch 1 [(2, 1), (4, 3)] True 0)
                           \<lparr>tree_stats := 236, color := Some (- 20)\<rparr>),
                   Tree (Treepatch 2 [(1, 0), (3, 2)] False 0),
                   Tree (Treepatch 3 [(2, 1), (4, 3)] False 0),
                   Tree (Treepatch 4 [(3, 2), (1, 0)] False 0)]\<rparr>, k + 6))"
  by (simp add: step_defs)

text \<open>
  Claim C3, evaluated on the code. Tree 1 of the pair burns at health 10, so the step
  replaces it: afterwards the patch table has a rock under id 1, and the neighbour
  dictionary of patch 2 still resolves id 1 to the tree of before the mutation, lit and
  at health 10.
\<close>

theorem neighbor_resolution_after_mutation:
  "\<exists>L k'. land_update transmission_config g burnt_pair k = Some (Inr (L, k')) \<and>
     lookup_patch L 1 = Inr (Rock (Rockpatch 1 [(2, 1)] default_prob)) \<and>
     resolve_neighbor L 2 1 = Inr (Tree (set_tree_stats 10 (Treepatch 1 [(2, 1)] True 0)))"
  by (simp add: step_defs)

section \<open>Firefighters on the land\<close>

text \<open>When a neighbour of the patch is a lit tree on a free position, \<open>move\<close> returns
  the id of the first such neighbour and draws nothing.\<close>

lemma move_to_first_lit_unoccupied:
  "first_lit_unoccupied h occ (dict_values (get_neighbors (h ! p))) = Some i
   \<Longrightarrow> move g h p occ k = Some (Inr (i, k))"
  by (simp add: move_def)

text \<open>
  Claim C8, evaluated on the code. On the path 1-2-3 with no patch lit and no position
  occupied, a firefighter on patch 1, whose only neighbour is patch 2, is sent to patch 3
  when the draw selects the second neighbour id of patch 2: the destination is drawn from
  the neighbours of the last neighbour visited, not of the current patch.
\<close>

theorem move_leaves_neighborhood:
  "create_landpatches default_config [(1, 2), (2, 3)] three_positions empty_land = Inr path_land \<and>
   lookup_patch path_land 1 = Inr (heap path_land ! 0) \<and>
   get_neighbors_id (heap path_land ! 0) = [2] \<and>
   move (\<lambda>n. 1) (heap path_land) 0 [] 0 = Some (Inr (3, 1))"
  by code_simp

text \<open>
  Claim C9, evaluated on the code. The default configuration asks for 2 firefighters; on
  a graph of two patches, when both draws select patch 1, the construction of the land
  returns with one firefighter only, the second one, who took the place of the first.
\<close>

theorem spawn_firefighters_collision:
  "fst (firefighters_config default_config) = 2 \<and>
   map_sum id (\<lambda>(L, k). firefighters L)
     (Land default_config (\<lambda>n. 0) [(1, 2)] two_positions True 0) =
   Inr [(1, \<lparr>firefighter_id = 1, avg_skill = 50\<rparr>)]"
  by code_simp

section \<open>The validation of the graph\<close>

text \<open>
  The loop starts with every node in \<open>unchecked\<close>, so it validates every node whatever
  the edges are: when the neighbour ids of every patch are among the keys of \<open>positions\<close>
  and the loop returns, it returns exactly these keys, and \<open>validate_graph\<close> cannot
  answer false.
\<close>

lemma validate_loop_visits_all:
  assumes "\<forall>k r. dict_get table k = Inr r \<longrightarrow> set (get_neighbors_id (h ! r)) \<subseteq> K"
      and "distinct v" and "set v \<subseteq> K" and "set u \<subseteq> K" and "K \<subseteq> set u \<union> set v"
      and "validate_loop h table u v = Inr w"
  shows "distinct w \<and> set w = K"
  using assms
proof (induction h table u v rule: validate_loop.induct)
  case (1 h table u v)
  note run0 = "1.prems"(6) [unfolded validate_loop.simps [of h table u v]]
  show ?case
  proof (cases "u = []")
    case True
    with run0 have "w = v"
      by (simp del: validate_loop.simps)
    with True "1.prems"(2,3,5) show ?thesis
      by auto
  next
    case False
    let ?e = "last u"
    let ?u1 = "butlast u"
    from False have "?u1 @ [?e] = u"
      by (rule append_butlast_last_id)
    then have "set u = set (?u1 @ [?e])"
      by (rule arg_cong [symmetric])
    then have u: "set u = insert ?e (set ?u1)"
      by simp
    from False have pos: "0 < length u"
      by simp
    show ?thesis
    proof (cases "?e \<in> set v")
      case True
      from run0 have run: "validate_loop h table ?u1 v = Inr w"
        by (simp add: Let_def False True del: validate_loop.simps)
      have a: "set ?u1 \<subseteq> K"
        using "1.prems"(4) u by auto
      have b: "K \<subseteq> set ?u1 \<union> set v"
        using "1.prems"(5) u True by auto
      from "1.IH"(1) [OF pos refl refl True "1.prems"(1,2,3) a b run] show ?thesis .
    next
      case notin: False
      show ?thesis
      proof (cases "dict_get table ?e")
        case (Inl e)
        with run0 show ?thesis
          by (simp add: Let_def False notin del: validate_loop.simps)
      next
        case (Inr r)
        let ?u2 = "removeAll ?e (?u1 @ get_neighbors_id (h ! r))"
        from run0
        have run: "validate_loop h table ?u2 (v @ [?e]) = Inr w"
          by (simp add: Let_def False notin Inr del: validate_loop.simps)
        from "1.prems"(1) Inr have nb: "set (get_neighbors_id (h ! r)) \<subseteq> K"
          by blast
        have e: "?e \<in> K"
          using "1.prems"(4) u by auto
        have a: "distinct (v @ [?e])"
          using "1.prems"(2) notin by simp
        have b: "set (v @ [?e]) \<subseteq> K"
          using "1.prems"(3) e by simp
        have c: "set ?u2 \<subseteq> K"
          using "1.prems"(4) u nb by auto
        have d: "K \<subseteq> set ?u2 \<union> set (v @ [?e])"
          using "1.prems"(5) u by auto
        from "1.IH"(2) [OF pos refl refl notin Inr "1.prems"(1) a b c d run] show ?thesis .
      qed
    qed
  qed
qed

lemma validate_graph_never_False:
  assumes "distinct (dict_keys pos)"
      and "\<forall>k r. dict_get table k = Inr r \<longrightarrow>
                 set (get_neighbors_id (h ! r)) \<subseteq> set (dict_keys pos)"
  shows "validate_graph pos h table \<noteq> Inr False"
proof (cases "validate_loop h table (dict_keys pos) []")
  case (Inl e)
  then show ?thesis
    by (simp add: validate_graph_def del: validate_loop.simps)
next
  case (Inr w)
  have "distinct w \<and> set w = set (dict_keys pos)"
    by (rule validate_loop_visits_all [OF assms(2) _ _ _ _ Inr]) simp_all
  then have "length w = length (dict_keys pos)"
    using assms(1) distinct_card [of w] distinct_card [of "dict_keys pos"] by simp
  with Inr show ?thesis
    by (simp add: validate_graph_def del: validate_loop.simps)
qed

text \<open>
  Claim C2, evaluated on the code. \<open>validate_graph\<close> answers true on the cycle
  1-2-3-4-1, on the same nodes with one edge removed (a path, which is still connected),
  and also on the same nodes with the edges 1-2 and 3-4 only, which are two components.
\<close>

theorem validate_graph_accepts_two_components:
  "validate_built [(1, 2), (2, 3), (3, 4), (4, 1)] four_positions = Inr True \<and>
   validate_built [(1, 2), (2, 3), (3, 4)] four_positions = Inr True \<and>
   validate_built [(1, 2), (3, 4)] four_positions = Inr True"
  by code_simp

end
